theory Spec2Isabelle
  imports Complex_Main "HOL-Library.Word"
begin

section \<open>Data model of \<open>src/index.ts\<close>\<close>

text \<open>
  The development embeds the class \<open>PubSubPeerDiscovery\<close> of \<open>src/index.ts\<close>.
  A \<open>Uint8Array\<close> is a list of bytes. A JavaScript number (\<open>interval\<close>,
  \<open>backoffOnSubscribe\<close>, a timer delay, a result of \<open>Math.random()\<close>) is a finite
  double, read as the real it denotes; \<open>NaN\<close> and the infinities are not values of
  the model. The product \<open>backoffOnSubscribe * Math.random()\<close> is the exact product
  rounded to a double by the host (\<open>fl\<close> below); the default
  \<open>interval * 0.1\<close> of the constructor is taken exactly.
\<close>

type_synonym bytes = "8 word list"

text \<open>The protobuf message \<open>Peer\<close> of \<open>./peer.js\<close>: a public key and a list of addresses.\<close>

record Peer =
  publicKey :: bytes
  addrs :: "bytes list"

text \<open>The \<open>detail\<close> of a pubsub \<open>message\<close> event: only the two fields the handler reads.\<close>

record Message =
  topic :: string
  data :: bytes

text \<open>One entry of \<open>subChangeEvt.detail.subscriptions\<close>.\<close>

record Subscription =
  sub_topic :: string
  sub_subscribe :: bool

text \<open>
  \<open>PeerInfo\<close>, the \<open>detail\<close> of a dispatched \<open>peer\<close> event. The field \<open>id\<close> of the
  source is \<open>id_PeerInfo\<close> here (\<open>id\<close> is the identity function of HOL).
\<close>

record ('pid, 'ma) PeerInfo =
  id_PeerInfo :: 'pid
  multiaddrs :: "'ma list"
  protocols :: "string list"

text \<open>
  What the source throws: the two \<open>Error\<close> values of \<open>index.ts\<close>, and whatever
  \<open>PBPeer.decode\<close> throws on bytes it cannot decode.
\<close>

datatype error =
    PubSub_not_configured
  | PeerId_was_missing_public_key
  | DecodeError

text \<open>
  A call of the source either returns or throws; the mutations made before a
  \<open>throw\<close> stay, so both outcomes carry the state.
\<close>

datatype 's outcome = Done 's | Thrown error 's

primrec state_of :: "'s outcome \<Rightarrow> 's" where
  "state_of (Done s) = s"
| "state_of (Thrown err s) = s"

text \<open>
  The collaborators the handler and the broadcast call: the codec of \<open>./peer.js\<close>
  (\<open>PBPeer.encode\<close>, \<open>PBPeer.decode\<close>), \<open>peerIdFromKeys\<close> of \<open>@libp2p/peer-id\<close> and
  \<open>multiaddr\<close> of \<open>@multiformats/multiaddr\<close>. None of them is among the sources, so
  they are parameters of the model. \<open>None\<close> stands for: \<open>decode\<close> throws,
  the promise of \<open>peerIdFromKeys\<close> rejects, \<open>multiaddr\<close> throws. A peer identifier
  is a value of \<open>'pid\<close>, and \<open>peerId.equals\<close> is equality on it.

  \<open>fl\<close> is the rounding of the host's arithmetic: the double nearest to a real. The
  \<open>*\<close> of two doubles is \<open>fl\<close> of their exact product.
\<close>

record ('pid, 'ma) externals =
  encode :: "Peer \<Rightarrow> bytes"
  decode :: "bytes \<Rightarrow> Peer option"
  peerIdFromKeys :: "bytes \<Rightarrow> 'pid option"
  multiaddr :: "bytes \<Rightarrow> 'ma option"
  fl :: "real \<Rightarrow> real"

text \<open>
  \<open>PubSubPeerDiscoveryComponents\<close>. \<open>peerId_publicKey\<close> is \<open>peerId.publicKey\<close>
  (\<open>None\<close> when it is \<open>null\<close> or \<open>undefined\<close>); \<open>pubsub\<close> tells whether
  \<open>components.pubsub\<close> is there. The calls the pubsub object receives and the addresses
  the address manager reports are state of the world below.
\<close>

record 'pid components =
  peerId :: 'pid
  peerId_publicKey :: "bytes option"
  pubsub :: bool

text \<open>\<open>PubsubPeerDiscoveryInit\<close>: every option may be left out.\<close>

record PubsubPeerDiscoveryInit =
  init_interval :: "real option"
  init_topics :: "string list option"
  init_listenOnly :: "bool option"
  init_broadcastOnSubscribe :: "bool option"
  init_backoffOnSubscribe :: "real option"

text \<open>The fields of the class; \<open>intervalId\<close> is the only one that is not \<open>readonly\<close>.\<close>

record 'pid PubSubPeerDiscovery =
  interval :: real
  listenOnly :: bool
  topics :: "string list"
  broadcastOnSubscribe :: bool
  backoffOnSubscribe :: real
  intervalId :: "nat option"
  components :: "'pid components"

subsection \<open>The world outside the class\<close>

datatype event_type = Message_event | Subscription_change_event

datatype pubsub_call =
    Subscribe string
  | Unsubscribe string
  | AddEventListener event_type
  | RemoveEventListener event_type
  | Publish string bytes

text \<open>
  A pending timer of the host: its handle and its delay. Both callbacks the source
  registers are \<open>() => { this._broadcast() }\<close>, so a timer stores no callback.
\<close>

datatype timer = Interval nat real | Timeout nat real

primrec handle_of :: "timer \<Rightarrow> nat" where
  "handle_of (Interval h d) = h"
| "handle_of (Timeout h d) = h"

primrec is_Timeout :: "timer \<Rightarrow> bool" where
  "is_Timeout (Interval h d) = False"
| "is_Timeout (Timeout h d) = True"

text \<open>What \<open>log.error(err)\<close> is called with in the \<open>catch\<close> of the handler.\<close>

datatype failure = Invalid_public_key | Invalid_multiaddr

datatype 'pid log_entry =
    Log_broadcasting string
  | Log_discovered 'pid string
  | Log_error failure

text \<open>
  The state outside the object: the calls \<open>components.pubsub\<close> has received (oldest
  first), the bytes of the addresses \<open>addressManager.getAddresses()\<close> returns now, the
  pending timers and the next free timer handle, the \<open>peer\<close> events dispatched and the
  log lines written.
\<close>

record ('pid, 'ma) world =
  calls :: "pubsub_call list"
  addresses :: "bytes list"
  timers :: "timer list"
  nextTimer :: nat
  dispatched :: "('pid, 'ma) PeerInfo list"
  logged :: "'pid log_entry list"

section \<open>The operations\<close>

definition TOPIC :: string where
  "TOPIC = ''_peer-discovery._p2p._pubsub''"

text \<open>
  The constructor: \<open>??\<close> takes the default when the option is missing, and the
  topics are the given ones only when there is at least one.
\<close>

definition constructor ::
  "'pid components \<Rightarrow> PubsubPeerDiscoveryInit \<Rightarrow> 'pid PubSubPeerDiscovery" where
  "constructor comps init =
     (let iv = (case init_interval init of None \<Rightarrow> 10000 | Some i \<Rightarrow> i) in
      \<lparr> interval = iv,
        listenOnly = (case init_listenOnly init of None \<Rightarrow> False | Some b \<Rightarrow> b),
        topics = (case init_topics init of
                    None \<Rightarrow> [TOPIC]
                  | Some ts \<Rightarrow> if length ts > 0 then ts else [TOPIC]),
        broadcastOnSubscribe =
          (case init_broadcastOnSubscribe init of None \<Rightarrow> False | Some b \<Rightarrow> b),
        backoffOnSubscribe =
          (case init_backoffOnSubscribe init of None \<Rightarrow> iv * (1 / 10) | Some b \<Rightarrow> b),
        intervalId = None,
        components = comps \<rparr>)"

definition isStarted :: "'pid PubSubPeerDiscovery \<Rightarrow> bool" where
  "isStarted e = (intervalId e \<noteq> None)"

subsection \<open>Timers of the host\<close>

definition setInterval :: "real \<Rightarrow> ('pid, 'ma) world \<Rightarrow> nat \<times> ('pid, 'ma) world" where
  "setInterval d w =
     (nextTimer w,
      w\<lparr>timers := timers w @ [Interval (nextTimer w) d], nextTimer := Suc (nextTimer w)\<rparr>)"

definition setTimeout :: "real \<Rightarrow> ('pid, 'ma) world \<Rightarrow> nat \<times> ('pid, 'ma) world" where
  "setTimeout d w =
     (nextTimer w,
      w\<lparr>timers := timers w @ [Timeout (nextTimer w) d], nextTimer := Suc (nextTimer w)\<rparr>)"

text \<open>\<open>clearInterval\<close> cancels whatever timer has the handle.\<close>

definition clearInterval :: "nat \<Rightarrow> ('pid, 'ma) world \<Rightarrow> ('pid, 'ma) world" where
  "clearInterval h w = w\<lparr>timers := filter (\<lambda>t. handle_of t \<noteq> h) (timers w)\<rparr>"

subsection \<open>\<open>_broadcast\<close>\<close>

text \<open>The loop of \<open>_broadcast\<close>: one log line and one \<open>publish\<close> per topic.\<close>

fun publish_all :: "string list \<Rightarrow> bytes \<Rightarrow> ('pid, 'ma) world \<Rightarrow> ('pid, 'ma) world" where
  "publish_all [] encodedPeer w = w"
| "publish_all (t # ts) encodedPeer w =
     publish_all ts encodedPeer
       (w\<lparr>logged := logged w @ [Log_broadcasting t],
          calls := calls w @ [Publish t encodedPeer]\<rparr>)"

text \<open>
  \<open>_broadcast\<close> (an Isabelle name cannot start with an underscore). The addresses
  are read from the world at the moment of the call.
\<close>

definition broadcast ::
  "('pid, 'ma) externals \<Rightarrow> 'pid PubSubPeerDiscovery \<Rightarrow> ('pid, 'ma) world
     \<Rightarrow> ('pid, 'ma) world outcome" where
  "broadcast x e w =
     (case peerId_publicKey (components e) of
        None \<Rightarrow> Thrown PeerId_was_missing_public_key w
      | Some pk \<Rightarrow>
          (let peer = \<lparr>publicKey = pk, addrs = addresses w\<rparr>;
               encodedPeer = encode x peer
           in if \<not> pubsub (components e) then Thrown PubSub_not_configured w
              else Done (publish_all (topics e) encodedPeer w)))"

subsection \<open>\<open>afterStart\<close>, \<open>beforeStop\<close>, \<open>stop\<close>\<close>

fun subscribe_all :: "string list \<Rightarrow> ('pid, 'ma) world \<Rightarrow> ('pid, 'ma) world" where
  "subscribe_all [] w = w"
| "subscribe_all (t # ts) w =
     subscribe_all ts (w\<lparr>calls := calls w @ [Subscribe t, AddEventListener Message_event]\<rparr>)"

fun unsubscribe_all :: "string list \<Rightarrow> ('pid, 'ma) world \<Rightarrow> ('pid, 'ma) world" where
  "unsubscribe_all [] w = w"
| "unsubscribe_all (t # ts) w =
     unsubscribe_all ts
       (w\<lparr>calls := calls w @ [Unsubscribe t, RemoveEventListener Message_event]\<rparr>)"

definition afterStart ::
  "('pid, 'ma) externals \<Rightarrow> 'pid PubSubPeerDiscovery \<Rightarrow> ('pid, 'ma) world
     \<Rightarrow> ('pid PubSubPeerDiscovery \<times> ('pid, 'ma) world) outcome" where
  "afterStart x e w =
     (if intervalId e \<noteq> None then Done (e, w)
      else if \<not> pubsub (components e) then Thrown PubSub_not_configured (e, w)
      else
        (let w1 = subscribe_all (topics e) w in
         if listenOnly e then Done (e, w1)
         else
           (let w2 = (if broadcastOnSubscribe e
                      then w1\<lparr>calls := calls w1 @ [AddEventListener Subscription_change_event]\<rparr>
                      else w1)
            in case broadcast x e w2 of
                 Thrown err w3 \<Rightarrow> Thrown err (e, w3)
               | Done w3 \<Rightarrow>
                   (let (h, w4) = setInterval (interval e) w3
                    in Done (e\<lparr>intervalId := Some h\<rparr>, w4)))))"

definition beforeStop ::
  "'pid PubSubPeerDiscovery \<Rightarrow> ('pid, 'ma) world \<Rightarrow> ('pid, 'ma) world outcome" where
  "beforeStop e w =
     (if \<not> pubsub (components e) then Thrown PubSub_not_configured w
      else Done (unsubscribe_all (topics e) w))"

definition stop ::
  "'pid PubSubPeerDiscovery \<Rightarrow> ('pid, 'ma) world
     \<Rightarrow> 'pid PubSubPeerDiscovery \<times> ('pid, 'ma) world" where
  "stop e w =
     (case intervalId e of
        Some h \<Rightarrow> (e\<lparr>intervalId := None\<rparr>, clearInterval h w)
      | None \<Rightarrow> (e, w))"

text \<open>The stop transition of the host: \<open>beforeStop\<close>, then \<open>stop\<close> unless the first threw.\<close>

definition stopTransition ::
  "'pid PubSubPeerDiscovery \<Rightarrow> ('pid, 'ma) world
     \<Rightarrow> ('pid PubSubPeerDiscovery \<times> ('pid, 'ma) world) outcome" where
  "stopTransition e w =
     (case beforeStop e w of
        Thrown err w1 \<Rightarrow> Thrown err (e, w1)
      | Done w1 \<Rightarrow> Done (stop e w1))"

subsection \<open>The listener of \<open>subscription-change\<close>\<close>

text \<open>
  The arrow function \<open>afterStart\<close> registers. \<open>r\<close> is what \<open>Math.random()\<close> returns,
  a double with \<open>0 \<le> r < 1\<close>; the delay handed to \<open>setTimeout\<close> is the double
  product of \<open>backoffOnSubscribe\<close> and \<open>r\<close>.
\<close>

definition onSubscriptionChange ::
  "('pid, 'ma) externals \<Rightarrow> 'pid PubSubPeerDiscovery \<Rightarrow> real \<Rightarrow> Subscription list
     \<Rightarrow> ('pid, 'ma) world \<Rightarrow> ('pid, 'ma) world" where
  "onSubscriptionChange x e r subscriptions w =
     (let discoverySubs = filter (\<lambda>sub. sub_topic sub \<in> set (topics e)) subscriptions in
      if length discoverySubs > 0
      then (let backoff = fl x (backoffOnSubscribe e * r) in snd (setTimeout backoff w))
      else w)"

text \<open>
  Every \<open>afterStart\<close> that gets as far registers a new arrow function, and nothing
  in the source removes one, so the listeners of \<open>subscription-change\<close> on the pubsub
  are as many as the \<open>addEventListener\<close> calls made for that event. They all read the
  same \<open>readonly\<close> fields, so they differ only in what \<open>Math.random()\<close> returns to them.
\<close>

definition subscriptionChangeListeners :: "('pid, 'ma) world \<Rightarrow> nat" where
  "subscriptionChangeListeners w =
     count_list (calls w) (AddEventListener Subscription_change_event)"

text \<open>
  The pubsub dispatches one \<open>subscription-change\<close> event: every registered listener is
  called once, in the order of registration; \<open>draw i\<close> is the result of
  \<open>Math.random()\<close> in listener \<open>i\<close>.
\<close>

definition dispatchSubscriptionChange ::
  "('pid, 'ma) externals \<Rightarrow> 'pid PubSubPeerDiscovery \<Rightarrow> (nat \<Rightarrow> real) \<Rightarrow> Subscription list
     \<Rightarrow> ('pid, 'ma) world \<Rightarrow> ('pid, 'ma) world" where
  "dispatchSubscriptionChange x e draw subscriptions w =
     fold (\<lambda>i. onSubscriptionChange x e (draw i) subscriptions)
       [0..<subscriptionChangeListeners w] w"

subsection \<open>\<open>_onMessage\<close>\<close>

text \<open>
  \<open>_onMessage\<close>, with the callbacks of its promise run to completion: the world
  returned is the one after \<open>then\<close> or \<open>catch\<close> has run. \<open>PBPeer.decode\<close> is called
  before the promise exists and outside any \<open>try\<close>, so what it throws leaves the
  handler. A rejection of \<open>peerIdFromKeys\<close> and a throw of \<open>multiaddr\<close> inside the
  \<open>then\<close> callback both end in \<open>catch\<close>, which logs.
\<close>

definition onMessage ::
  "('pid, 'ma) externals \<Rightarrow> 'pid PubSubPeerDiscovery \<Rightarrow> Message \<Rightarrow> ('pid, 'ma) world
     \<Rightarrow> ('pid, 'ma) world outcome" where
  "onMessage x e message w =
     (if \<not> isStarted e then Done w
      else if topic message \<notin> set (topics e) then Done w
      else
        (case decode x (data message) of
           None \<Rightarrow> Thrown DecodeError w
         | Some peer \<Rightarrow>
             Done
               (case peerIdFromKeys x (publicKey peer) of
                  None \<Rightarrow> w\<lparr>logged := logged w @ [Log_error Invalid_public_key]\<rparr>
                | Some pid \<Rightarrow>
                    if pid = peerId (components e) then w
                    else
                      (let w1 = w\<lparr>logged := logged w @ [Log_discovered pid (topic message)]\<rparr>
                       in case those (map (multiaddr x) (addrs peer)) of
                            None \<Rightarrow> w1\<lparr>logged := logged w1 @ [Log_error Invalid_multiaddr]\<rparr>
                          | Some mas \<Rightarrow>
                              w1\<lparr>dispatched := dispatched w1 @
                                    [\<lparr>id_PeerInfo = pid, multiaddrs = mas, protocols = []\<rparr>]\<rparr>))))"

subsection \<open>Runs of the engine\<close>

text \<open>
  The host fires a pending timer by calling its callback, which is \<open>_broadcast\<close>
  for both kinds. A one-shot timer is gone once fired; a timer that has been cancelled
  does not fire.
\<close>

definition fireTimer ::
  "('pid, 'ma) externals \<Rightarrow> 'pid PubSubPeerDiscovery \<Rightarrow> timer \<Rightarrow> ('pid, 'ma) world
     \<Rightarrow> ('pid, 'ma) world outcome" where
  "fireTimer x e t w =
     (if t \<notin> set (timers w) then Done w
      else if is_Timeout t then broadcast x e (w\<lparr>timers := removeAll t (timers w)\<rparr>)
      else broadcast x e w)"

text \<open>
  What can happen to an engine: the host calls a lifecycle method, the pubsub delivers
  an event to a listener, a timer fires, the address manager learns other addresses.
  \<open>OnSubscriptionChange\<close> is one call of one listener of \<open>subscription-change\<close>; an
  event dispatched to several listeners is as many steps. A step does not ask whether
  the listener is registered or what the draw is, so the runs below include every
  execution of the engine.
\<close>

datatype action =
    AfterStart
  | BeforeStop
  | Stop
  | OnMessage Message
  | OnSubscriptionChange real "Subscription list"
  | FireTimer timer
  | AddressesChange "bytes list"

fun step ::
  "('pid, 'ma) externals \<Rightarrow> action \<Rightarrow> 'pid PubSubPeerDiscovery \<times> ('pid, 'ma) world
     \<Rightarrow> 'pid PubSubPeerDiscovery \<times> ('pid, 'ma) world" where
  "step x AfterStart (e, w) = state_of (afterStart x e w)"
| "step x BeforeStop (e, w) = (e, state_of (beforeStop e w))"
| "step x Stop (e, w) = stop e w"
| "step x (OnMessage m) (e, w) = (e, state_of (onMessage x e m w))"
| "step x (OnSubscriptionChange r subscriptions) (e, w) =
     (e, onSubscriptionChange x e r subscriptions w)"
| "step x (FireTimer t) (e, w) = (e, state_of (fireTimer x e t w))"
| "step x (AddressesChange a) (e, w) = (e, w\<lparr>addresses := a\<rparr>)"

fun run ::
  "('pid, 'ma) externals \<Rightarrow> action list \<Rightarrow> 'pid PubSubPeerDiscovery \<times> ('pid, 'ma) world
     \<Rightarrow> 'pid PubSubPeerDiscovery \<times> ('pid, 'ma) world" where
  "run x [] s = s"
| "run x (a # as) s = run x as (step x a s)"

text \<open>The world before the engine has done anything: no call, no timer, no event.\<close>

definition initial_world :: "bytes list \<Rightarrow> ('pid, 'ma) world" where
  "initial_world a =
     \<lparr> calls = [], addresses = a, timers = [], nextTimer = 0, dispatched = [], logged = [] \<rparr>"

text \<open>
  Timer handles are handed out in increasing order, so every pending timer has a
  handle below the next free one, and no one-shot timer has the handle stored in
  \<open>intervalId\<close>.
\<close>

definition handles_fresh :: "'pid PubSubPeerDiscovery \<times> ('pid, 'ma) world \<Rightarrow> bool" where
  "handles_fresh s =
     (list_all (\<lambda>t. handle_of t < nextTimer (snd s)) (timers (snd s)) \<and>
      (case intervalId (fst s) of
         None \<Rightarrow> True
       | Some h \<Rightarrow>
           h < nextTimer (snd s) \<and>
           list_all (\<lambda>t. \<not> (is_Timeout t \<and> handle_of t = h)) (timers (snd s))))"

primrec is_Subscribe :: "pubsub_call \<Rightarrow> bool" where
  "is_Subscribe (Subscribe t) = True"
| "is_Subscribe (Unsubscribe t) = False"
| "is_Subscribe (AddEventListener ev) = False"
| "is_Subscribe (RemoveEventListener ev) = False"
| "is_Subscribe (Publish t b) = False"

subsection \<open>Sample collaborators and inputs\<close>

text \<open>
  An instance of the collaborators, to evaluate the model at concrete inputs: the
  first byte of a payload is the public key and the rest, when there is one, is a
  single address; the empty payload does not decode. A key is its own identifier,
  and an address parses to itself unless it is empty. Every number of the samples that
  use this instance is a double and so is every product taken, so \<open>fl\<close> rounds nothing.
\<close>

definition sample_externals :: "(bytes, bytes) externals" where
  "sample_externals =
     \<lparr> encode = (\<lambda>p. publicKey p @ concat (addrs p)),
       decode = (\<lambda>bs. case bs of
                   [] \<Rightarrow> None
                 | k # rest \<Rightarrow>
                     Some \<lparr>publicKey = [k], addrs = (if rest = [] then [] else [rest])\<rparr>),
       peerIdFromKeys = (\<lambda>pk. if pk = [] then None else Some pk),
       multiaddr = (\<lambda>b. if b = [] then None else Some b),
       fl = (\<lambda>v. v) \<rparr>"

text \<open>
  The doubles of magnitude below \<open>1 / 2 ^ 1022\<close> are the multiples of the smallest
  positive double, \<open>1 / 2 ^ 1074\<close> (printed \<open>5e-324\<close>). Rounding a real of that range to
  the nearest double is rounding it to the nearest multiple. (A tie goes to the even
  multiple in the host and upwards here; no sample below is a tie.)
\<close>

definition subnormal_fl :: "real \<Rightarrow> real" where
  "subnormal_fl v = of_int (round (v * 2 ^ 1074)) / 2 ^ 1074"

definition subnormal_externals :: "(bytes, bytes) externals" where
  "subnormal_externals = sample_externals\<lparr>fl := subnormal_fl\<rparr>"

text \<open>A node with key \<open>[1]\<close> and a pubsub, and the same node without its public key.\<close>

definition sample_components :: "bytes components" where
  "sample_components = \<lparr> peerId = [1], peerId_publicKey = Some [1], pubsub = True \<rparr>"

definition keyless_components :: "bytes components" where
  "keyless_components = \<lparr> peerId = [1], peerId_publicKey = None, pubsub = True \<rparr>"

text \<open>\<open>init = {}\<close>, the default argument of the constructor.\<close>

definition empty_init :: PubsubPeerDiscoveryInit where
  "empty_init =
     \<lparr> init_interval = None, init_topics = None, init_listenOnly = None,
       init_broadcastOnSubscribe = None, init_backoffOnSubscribe = None \<rparr>"

text \<open>A message on the default topic announcing the peer with key \<open>[2]\<close> at address \<open>[7]\<close>.\<close>

definition sample_message :: Message where
  "sample_message = \<lparr> topic = TOPIC, data = [2, 7] \<rparr>"

text \<open>A message on the default topic whose payload does not decode.\<close>

definition malformed_message :: Message where
  "malformed_message = \<lparr> topic = TOPIC, data = [] \<rparr>"

text \<open>The node's own announcement, echoed back.\<close>

definition own_message :: Message where
  "own_message = \<lparr> topic = TOPIC, data = [1, 7] \<rparr>"

text \<open>A message on another topic, with a payload that decodes.\<close>

definition off_topic_message :: Message where
  "off_topic_message = \<lparr> topic = ''other'', data = [2, 7] \<rparr>"

text \<open>A subscription change that names the default topic.\<close>

definition sample_subscription :: Subscription where
  "sample_subscription = \<lparr> sub_topic = TOPIC, sub_subscribe = True \<rparr>"

definition empty_world :: "(bytes, bytes) world" where
  "empty_world = initial_world []"

text \<open>
  Engines built by the constructor: with \<open>init = {}\<close>; the same once \<open>afterStart\<close> has
  stored the timer handle \<open>0\<close>; with no public key; with \<open>listenOnly: true\<close>; with
  \<open>broadcastOnSubscribe: true\<close>; and with \<open>broadcastOnSubscribe: true\<close> and
  \<open>backoffOnSubscribe: 0\<close>.
\<close>

definition sample_engine :: "bytes PubSubPeerDiscovery" where
  "sample_engine = constructor sample_components empty_init"

definition started_engine :: "bytes PubSubPeerDiscovery" where
  "started_engine = sample_engine\<lparr>intervalId := Some 0\<rparr>"

definition keyless_engine :: "bytes PubSubPeerDiscovery" where
  "keyless_engine = constructor keyless_components empty_init"

definition listening_engine :: "bytes PubSubPeerDiscovery" where
  "listening_engine =
     constructor sample_components (empty_init\<lparr>init_listenOnly := Some True\<rparr>)"

definition reactive_engine :: "bytes PubSubPeerDiscovery" where
  "reactive_engine =
     constructor sample_components (empty_init\<lparr>init_broadcastOnSubscribe := Some True\<rparr>)"

definition eager_engine :: "bytes PubSubPeerDiscovery" where
  "eager_engine =
     constructor sample_components
       (empty_init\<lparr>init_broadcastOnSubscribe := Some True,
                   init_backoffOnSubscribe := Some 0\<rparr>)"

text \<open>With \<open>broadcastOnSubscribe: true\<close> and \<open>backoffOnSubscribe: 5e-324\<close>.\<close>

definition tiny_engine :: "bytes PubSubPeerDiscovery" where
  "tiny_engine =
     constructor sample_components
       (empty_init\<lparr>init_broadcastOnSubscribe := Some True,
                   init_backoffOnSubscribe := Some (1 / 2 ^ 1074)\<rparr>)"

section \<open>Properties\<close>

subsection \<open>The loops, and the definitions unfolded at concrete inputs\<close>

lemma publish_all_eq:
  "publish_all ts b w =
     w\<lparr>logged := logged w @ map Log_broadcasting ts,
       calls := calls w @ map (\<lambda>t. Publish t b) ts\<rparr>"
  by (induction ts arbitrary: w) simp_all

lemma subscribe_all_eq:
  "subscribe_all ts w =
     w\<lparr>calls := calls w @
          concat (map (\<lambda>t. [Subscribe t, AddEventListener Message_event]) ts)\<rparr>"
  by (induction ts arbitrary: w) simp_all

lemma unsubscribe_all_eq:
  "unsubscribe_all ts w =
     w\<lparr>calls := calls w @
          concat (map (\<lambda>t. [Unsubscribe t, RemoveEventListener Message_event]) ts)\<rparr>"
  by (induction ts arbitrary: w) simp_all

lemma filter_Subscribe_subscribed:
  "filter is_Subscribe (concat (map (\<lambda>t. [Subscribe t, AddEventListener Message_event]) ts))
     = map Subscribe ts"
  by (induction ts) simp_all

lemma filter_Subscribe_published:
  "filter is_Subscribe (map (\<lambda>t. Publish t b) ts) = []"
  by (induction ts) simp_all



lemmas sample_defs =
  sample_engine_def started_engine_def keyless_engine_def listening_engine_def eager_engine_def
  reactive_engine_def sample_subscription_def off_topic_message_def empty_world_def
  sample_externals_def sample_components_def keyless_components_def empty_init_def
  sample_message_def malformed_message_def own_message_def initial_world_def
  constructor_def TOPIC_def tiny_engine_def subnormal_externals_def

lemmas op_defs =
  afterStart_def beforeStop_def stop_def stopTransition_def broadcast_def onMessage_def
  onSubscriptionChange_def fireTimer_def isStarted_def setInterval_def setTimeout_def
  clearInterval_def subscriptionChangeListeners_def dispatchSubscriptionChange_def Let_def

subsection \<open>The constructor\<close>

text \<open>
  C10. Constructing with \<open>topics: []\<close> gives the same object as constructing with no
  \<open>topics\<close> at all, and its topic list is the single default topic
  \<open>_peer-discovery._p2p._pubsub\<close>.
\<close>

theorem constructor_empty_topics:
  "constructor comps (init\<lparr>init_topics := Some []\<rparr>) =
     constructor comps (init\<lparr>init_topics := None\<rparr>)
   \<and> topics (constructor comps (init\<lparr>init_topics := Some []\<rparr>)) = [TOPIC]
   \<and> topics (constructor comps (init\<lparr>init_topics := None\<rparr>)) = [TOPIC]
   \<and> TOPIC = ''_peer-discovery._p2p._pubsub''"
  by (simp add: constructor_def TOPIC_def Let_def)

subsection \<open>The message handler\<close>

text \<open>
  C6. A message whose topic is not in the topic list leaves the world as it is,
  whatever its payload: no event is dispatched, nothing is logged, nothing is thrown.
\<close>

theorem onMessage_other_topic:
  "topic message \<notin> set (topics e) \<Longrightarrow> onMessage x e message w = Done w"
  by (simp add: onMessage_def)

text \<open>C6 at a started engine and a message on the topic \<open>other\<close> whose payload decodes.\<close>

theorem onMessage_other_topic_witness:
  "topic off_topic_message \<notin> set (topics started_engine)
   \<and> decode sample_externals (data off_topic_message) \<noteq> None
   \<and> onMessage sample_externals started_engine off_topic_message empty_world = Done empty_world"
  using onMessage_other_topic [of off_topic_message started_engine sample_externals empty_world]
  by (simp add: sample_defs op_defs)

text \<open>
  C5. A message on a configured topic whose payload decodes to a public key that
  resolves to this node's own identifier leaves the world as it is: no event is
  dispatched and nothing is logged.
\<close>

theorem onMessage_self:
  assumes "topic message \<in> set (topics e)"
      and "decode x (data message) = Some peer"
      and "peerIdFromKeys x (publicKey peer) = Some (peerId (components e))"
  shows "onMessage x e message w = Done w"
  using assms by (simp add: onMessage_def)

text \<open>C5 at a started engine that receives its own announcement.\<close>

theorem onMessage_self_witness:
  "topic own_message \<in> set (topics started_engine)
   \<and> decode sample_externals (data own_message) = Some \<lparr>publicKey = [1], addrs = [[7]]\<rparr>
   \<and> peerIdFromKeys sample_externals [1] = Some (peerId (components started_engine))
   \<and> isStarted started_engine
   \<and> onMessage sample_externals started_engine own_message empty_world = Done empty_world"
  using onMessage_self [of own_message started_engine sample_externals
      "\<lparr>publicKey = [1], addrs = [[7]]\<rparr>" empty_world]
  by (simp add: sample_defs op_defs)

text \<open>
  C1, as the code behaves. On a started engine, a message on a configured topic
  whose payload does not decode makes \<open>_onMessage\<close> throw what \<open>PBPeer.decode\<close> threw:
  the call is made before the promise chain, so its \<open>catch\<close> does not see it and
  nothing is logged. The world is left as it was, and a later message on a configured
  topic that decodes, resolves to another peer and carries parseable addresses still
  has its one event dispatched.
\<close>

theorem onMessage_decode_failure:
  assumes "isStarted e"
      and "topic message \<in> set (topics e)"
      and "decode x (data message) = None"
      and "topic later \<in> set (topics e)"
      and "decode x (data later) = Some peer"
      and "peerIdFromKeys x (publicKey peer) = Some pid"
      and "pid \<noteq> peerId (components e)"
      and "those (map (multiaddr x) (addrs peer)) = Some mas"
  shows "onMessage x e message w = Thrown DecodeError w
       \<and> dispatched (state_of (onMessage x e later (state_of (onMessage x e message w)))) =
           dispatched w @ [\<lparr>id_PeerInfo = pid, multiaddrs = mas, protocols = []\<rparr>]"
  using assms by (simp add: onMessage_def)

text \<open>C1 at a started engine: the empty payload, then the announcement of peer \<open>[2]\<close>.\<close>

theorem onMessage_decode_failure_witness:
  "isStarted started_engine
   \<and> topic malformed_message \<in> set (topics started_engine)
   \<and> decode sample_externals (data malformed_message) = None
   \<and> topic sample_message \<in> set (topics started_engine)
   \<and> decode sample_externals (data sample_message) = Some \<lparr>publicKey = [2], addrs = [[7]]\<rparr>
   \<and> peerIdFromKeys sample_externals [2] = Some [2]
   \<and> [2] \<noteq> peerId (components started_engine)
   \<and> those (map (multiaddr sample_externals) [[7]]) = Some [[7]]
   \<and> onMessage sample_externals started_engine malformed_message empty_world
       = Thrown DecodeError empty_world
   \<and> dispatched (state_of (onMessage sample_externals started_engine sample_message
         (state_of (onMessage sample_externals started_engine malformed_message empty_world))))
       = [\<lparr>id_PeerInfo = [2], multiaddrs = [[7]], protocols = []\<rparr>]"
  using onMessage_decode_failure [of started_engine malformed_message sample_externals
      sample_message "\<lparr>publicKey = [2], addrs = [[7]]\<rparr>" "[2]" "[[7]]" empty_world]
  by (simp add: sample_defs op_defs)

text \<open>
  C2, as the code behaves. With \<open>listenOnly\<close>, \<open>afterStart\<close> subscribes and returns
  before \<open>intervalId\<close> is set. \<open>isStarted\<close> reads \<open>intervalId\<close>, so the engine is never
  started in the handler's eyes, and \<open>_onMessage\<close> leaves the world as it is for every
  message: no event is ever dispatched.
\<close>

theorem listenOnly_discards_every_message:
  assumes "listenOnly e" and "intervalId e = None" and "pubsub (components e)"
  shows "afterStart x e w = Done (e, subscribe_all (topics e) w)
       \<and> \<not> isStarted e
       \<and> onMessage x e message w' = Done w'"
  using assms by (simp add: afterStart_def onMessage_def isStarted_def Let_def)

text \<open>
  C2 at a listen-only engine after \<open>afterStart\<close>, for the announcement of another
  peer on the default topic.
\<close>

theorem listenOnly_discards_every_message_witness:
  "listenOnly listening_engine \<and> intervalId listening_engine = None
   \<and> pubsub (components listening_engine)
   \<and> topic sample_message \<in> set (topics listening_engine)
   \<and> decode sample_externals (data sample_message) = Some \<lparr>publicKey = [2], addrs = [[7]]\<rparr>
   \<and> peerIdFromKeys sample_externals [2] = Some [2]
   \<and> [2] \<noteq> peerId (components listening_engine)
   \<and> fst (state_of (afterStart sample_externals listening_engine empty_world)) = listening_engine
   \<and> dispatched (state_of (onMessage sample_externals listening_engine sample_message
         (snd (state_of (afterStart sample_externals listening_engine empty_world))))) = []"
  using listenOnly_discards_every_message [of listening_engine sample_externals empty_world
      sample_message "subscribe_all (topics listening_engine) empty_world"]
  by (simp add: sample_defs op_defs)

text \<open>
  On a started engine, a message on a configured topic that decodes, resolves to
  another peer and carries parseable addresses has exactly one event dispatched, with
  the resolved identifier, the parsed addresses and no protocols.
\<close>

theorem onMessage_discovers:
  assumes "isStarted e"
      and "topic message \<in> set (topics e)"
      and "decode x (data message) = Some peer"
      and "peerIdFromKeys x (publicKey peer) = Some pid"
      and "pid \<noteq> peerId (components e)"
      and "those (map (multiaddr x) (addrs peer)) = Some mas"
  shows "onMessage x e message w =
           Done (w\<lparr>logged := logged w @ [Log_discovered pid (topic message)],
                   dispatched := dispatched w @
                     [\<lparr>id_PeerInfo = pid, multiaddrs = mas, protocols = []\<rparr>]\<rparr>)"
  using assms by (simp add: onMessage_def)

theorem onMessage_discovers_witness:
  "isStarted started_engine
   \<and> topic sample_message \<in> set (topics started_engine)
   \<and> decode sample_externals (data sample_message) = Some \<lparr>publicKey = [2], addrs = [[7]]\<rparr>
   \<and> peerIdFromKeys sample_externals [2] = Some [2]
   \<and> [2] \<noteq> peerId (components started_engine)
   \<and> those (map (multiaddr sample_externals) [[7]]) = Some [[7]]
   \<and> dispatched (state_of (onMessage sample_externals started_engine sample_message empty_world))
       = [\<lparr>id_PeerInfo = [2], multiaddrs = [[7]], protocols = []\<rparr>]"
  using onMessage_discovers [of started_engine sample_message sample_externals
      "\<lparr>publicKey = [2], addrs = [[7]]\<rparr>" "[2]" "[[7]]" empty_world]
  by (simp add: sample_defs op_defs)

subsection \<open>The broadcast\<close>

text \<open>
  C7. With a pubsub configured, \<open>_broadcast\<close> throws exactly when the local peer has
  no public key. With a key, it returns after one \<open>publish\<close> per entry of the topic
  list, in order, each with the same bytes: the encoding of the announcement made of
  that key and of the addresses the address manager reports at the moment of the call.
\<close>

theorem broadcast_spec:
  assumes "pubsub (components e)"
  shows "((\<exists>err w'. broadcast x e w = Thrown err w') \<longleftrightarrow> peerId_publicKey (components e) = None)
       \<and> (\<forall>pk. peerId_publicKey (components e) = Some pk \<longrightarrow>
            broadcast x e w =
              Done (w\<lparr>logged := logged w @ map Log_broadcasting (topics e),
                      calls := calls w @
                        map (\<lambda>t. Publish t (encode x \<lparr>publicKey = pk, addrs = addresses w\<rparr>))
                          (topics e)\<rparr>))"
  using assms by (auto simp: broadcast_def publish_all_eq Let_def split: option.splits)

text \<open>C7 at a node with key \<open>[1]\<close> whose address manager reports the address \<open>[9]\<close>.\<close>

theorem broadcast_spec_witness:
  "pubsub (components sample_engine)
   \<and> peerId_publicKey (components sample_engine) = Some [1]
   \<and> broadcast sample_externals sample_engine (initial_world [[9]]) =
       Done ((initial_world [[9]])
               \<lparr>logged := [Log_broadcasting TOPIC], calls := [Publish TOPIC [1, 9]]\<rparr>)"
  using broadcast_spec [of sample_engine sample_externals "initial_world [[9]]"]
  by (simp add: sample_defs op_defs)

subsection \<open>Start and stop\<close>

text \<open>
  C3, amended. For an engine that is not started, is not listen-only, has a pubsub
  and a public key: \<open>afterStart\<close> returns, a second \<open>afterStart\<close> right after it
  changes nothing (no call to the pubsub, no timer), and the \<open>subscribe\<close> calls the two
  made together are one per entry of the topic list, in order.
\<close>

theorem afterStart_twice:
  assumes "intervalId e = None" and "\<not> listenOnly e" and "pubsub (components e)"
      and "peerId_publicKey (components e) = Some pk"
  shows "\<exists>e1 w1. afterStart x e w = Done (e1, w1)
           \<and> afterStart x e1 w1 = Done (e1, w1)
           \<and> filter is_Subscribe (calls w1) =
               filter is_Subscribe (calls w) @ map Subscribe (topics e)"
  using assms
  by (simp add: afterStart_def broadcast_def publish_all_eq subscribe_all_eq setInterval_def
        Let_def filter_Subscribe_subscribed filter_Subscribe_published)

text \<open>C3, amended, at the engine built with \<open>init = {}\<close>.\<close>

theorem afterStart_twice_witness:
  "intervalId sample_engine = None \<and> \<not> listenOnly sample_engine
   \<and> pubsub (components sample_engine)
   \<and> peerId_publicKey (components sample_engine) = Some [1]
   \<and> filter is_Subscribe
        (calls (snd (run sample_externals [AfterStart, AfterStart] (sample_engine, empty_world))))
       = [Subscribe TOPIC]"
  using afterStart_twice [of sample_engine "[1]" sample_externals empty_world]
  by (auto simp: sample_defs op_defs)

text \<open>
  C3 as stated fails for a node without a public key: \<open>afterStart\<close> subscribes, then
  \<open>_broadcast\<close> throws before \<open>intervalId\<close> is set, so the second \<open>afterStart\<close>
  subscribes once more. The single configured topic gets two \<open>subscribe\<close> calls.
\<close>

theorem afterStart_twice_counterexample:
  "topics keyless_engine = [TOPIC] \<and> intervalId keyless_engine = None
   \<and> pubsub (components keyless_engine)
   \<and> afterStart sample_externals keyless_engine empty_world =
       Thrown PeerId_was_missing_public_key
         (keyless_engine,
          empty_world\<lparr>calls := [Subscribe TOPIC, AddEventListener Message_event]\<rparr>)
   \<and> filter is_Subscribe
        (calls (snd (run sample_externals [AfterStart, AfterStart] (keyless_engine, empty_world))))
       = [Subscribe TOPIC, Subscribe TOPIC]"
  by (simp add: sample_defs op_defs)

text \<open>
  C4, amended. On an engine that is not started, \<open>beforeStop\<close> followed by \<open>stop\<close>
  leaves the engine as it is and touches no timer, but \<open>beforeStop\<close> has no guard: with
  a pubsub it calls \<open>unsubscribe\<close> and \<open>removeEventListener\<close> once per entry of the
  topic list; without one it throws and nothing is called.
\<close>

theorem stop_when_idle:
  assumes "intervalId e = None"
  shows "stopTransition e w =
           (if pubsub (components e)
            then Done (e, w\<lparr>calls := calls w @
                     concat (map (\<lambda>t. [Unsubscribe t, RemoveEventListener Message_event])
                               (topics e))\<rparr>)
            else Thrown PubSub_not_configured (e, w))"
  using assms by (simp add: stopTransition_def beforeStop_def stop_def unsubscribe_all_eq)

text \<open>C4, amended, at the engine built with \<open>init = {}\<close>, never started.\<close>

theorem stop_when_idle_witness:
  "intervalId sample_engine = None
   \<and> stopTransition sample_engine empty_world =
       Done (sample_engine,
             empty_world\<lparr>calls := [Unsubscribe TOPIC, RemoveEventListener Message_event]\<rparr>)"
  using stop_when_idle [of sample_engine empty_world]
  by (simp add: sample_defs op_defs)

text \<open>
  C4 as stated fails at that engine: the stop transition of the never-started engine
  makes two calls to the pubsub.
\<close>

theorem stop_when_idle_counterexample:
  "intervalId sample_engine = None
   \<and> calls empty_world = []
   \<and> calls (snd (state_of (stopTransition sample_engine empty_world))) =
       [Unsubscribe TOPIC, RemoveEventListener Message_event]"
  by (simp add: sample_defs op_defs)

text \<open>
  With \<open>listenOnly\<close>, \<open>afterStart\<close> only subscribes and registers the message
  listener: it publishes nothing and sets no timer, so no broadcast follows.
\<close>

theorem listenOnly_never_publishes:
  assumes "listenOnly e" and "pubsub (components e)" and "intervalId e = None"
  shows "afterStart x e w =
           Done (e, w\<lparr>calls := calls w @
                   concat (map (\<lambda>t. [Subscribe t, AddEventListener Message_event])
                             (topics e))\<rparr>)"
  using assms by (simp add: afterStart_def subscribe_all_eq Let_def)

theorem listenOnly_never_publishes_witness:
  "listenOnly listening_engine \<and> pubsub (components listening_engine)
   \<and> intervalId listening_engine = None
   \<and> afterStart sample_externals listening_engine empty_world =
       Done (listening_engine,
             empty_world\<lparr>calls := [Subscribe TOPIC, AddEventListener Message_event]\<rparr>)"
  using listenOnly_never_publishes [of listening_engine sample_externals empty_world]
  by (simp add: sample_defs op_defs)

subsection \<open>The backoff of the broadcast on a subscription change\<close>









subsection \<open>Timers across a stop\<close>

lemma broadcast_timers:
  "timers (state_of (broadcast x e w)) = timers w"
  "nextTimer (state_of (broadcast x e w)) = nextTimer w"
  by (simp_all add: broadcast_def publish_all_eq Let_def split: option.splits)

lemma onMessage_timers:
  "timers (state_of (onMessage x e m w)) = timers w"
  "nextTimer (state_of (onMessage x e m w)) = nextTimer w"
  by (simp_all add: onMessage_def Let_def split: option.splits)

lemma beforeStop_timers:
  "timers (state_of (beforeStop e w)) = timers w"
  "nextTimer (state_of (beforeStop e w)) = nextTimer w"
  by (simp_all add: beforeStop_def unsubscribe_all_eq)

lemma handles_fresh_afterStart:
  "handles_fresh (e, w) \<Longrightarrow> handles_fresh (state_of (afterStart x e w))"
  by (auto simp: handles_fresh_def afterStart_def broadcast_def publish_all_eq subscribe_all_eq
        setInterval_def Let_def list_all_iff split: option.splits)

lemma handles_fresh_stop:
  "handles_fresh (e, w) \<Longrightarrow> handles_fresh (stop e w)"
  by (auto simp: handles_fresh_def stop_def clearInterval_def list_all_iff split: option.splits)

lemma handles_fresh_onSubscriptionChange:
  "handles_fresh (e, w) \<Longrightarrow> handles_fresh (e, onSubscriptionChange x e r subs w)"
  by (auto simp: handles_fresh_def onSubscriptionChange_def setTimeout_def Let_def list_all_iff
        split: option.splits)

lemma handles_fresh_fireTimer:
  "handles_fresh (e, w) \<Longrightarrow> handles_fresh (e, state_of (fireTimer x e t w))"
  by (auto simp: handles_fresh_def fireTimer_def broadcast_timers list_all_iff
        split: option.splits)

lemma handles_fresh_step:
  "handles_fresh s \<Longrightarrow> handles_fresh (step x a s)"
proof (cases s)
  case (Pair e w)
  assume "handles_fresh s"
  with Pair have h: "handles_fresh (e, w)" by simp
  show ?thesis
  proof (cases a)
    case AfterStart
    with Pair h show ?thesis by (simp add: handles_fresh_afterStart)
  next
    case BeforeStop
    with Pair h show ?thesis
      by (simp add: handles_fresh_def beforeStop_timers split: option.splits)
  next
    case Stop
    with Pair h show ?thesis by (simp add: handles_fresh_stop)
  next
    case (OnMessage m)
    with Pair h show ?thesis
      by (simp add: handles_fresh_def onMessage_timers split: option.splits)
  next
    case (OnSubscriptionChange r subs)
    with Pair h show ?thesis by (simp add: handles_fresh_onSubscriptionChange)
  next
    case (FireTimer t)
    with Pair h show ?thesis by (simp add: handles_fresh_fireTimer)
  next
    case (AddressesChange a)
    with Pair h show ?thesis
      by (simp add: handles_fresh_def split: option.splits)
  qed
qed

lemma handles_fresh_run:
  "handles_fresh s \<Longrightarrow> handles_fresh (run x acts s)"
  by (induction acts arbitrary: s) (simp_all add: handles_fresh_step)

lemma handles_fresh_initial:
  "handles_fresh (constructor comps init, initial_world a)"
  by (simp add: handles_fresh_def constructor_def initial_world_def Let_def)

text \<open>
  In every state an engine reaches from its construction, all pending timers have
  handles below the next free one and no one-shot timer has the handle stored in
  \<open>intervalId\<close>.
\<close>

theorem handles_fresh_reachable:
  "handles_fresh (run x acts (constructor comps init, initial_world a))"
  by (rule handles_fresh_run) (rule handles_fresh_initial)

text \<open>
  C9. In every state \<open>(e, w)\<close> an engine reaches from its construction,
  \<open>beforeStop\<close> followed by \<open>stop\<close> clears \<open>intervalId\<close> and removes from the pending
  timers the one with that handle and no other. Every one-shot timer that was pending
  is still pending, and when it fires after the stop it runs \<open>_broadcast\<close>, which does
  not look at whether the engine is started.
\<close>

theorem stop_keeps_one_shot_timers:
  assumes "run x acts (constructor comps init, initial_world a) = (e, w)"
      and "stop e (state_of (beforeStop e w)) = (e', w')"
  shows "intervalId e' = None
       \<and> timers w' = filter (\<lambda>t. Some (handle_of t) \<noteq> intervalId e) (timers w)
       \<and> filter is_Timeout (timers w') = filter is_Timeout (timers w)
       \<and> (\<forall>t \<in> set (timers w). is_Timeout t \<longrightarrow>
             t \<in> set (timers w') \<and>
             fireTimer x e' t w' = broadcast x e' (w'\<lparr>timers := removeAll t (timers w')\<rparr>))"
proof -
  have "handles_fresh (run x acts (constructor comps init, initial_world a))"
    by (rule handles_fresh_run) (rule handles_fresh_initial)
  with assms(1) have inv: "handles_fresh (e, w)" by simp
  show ?thesis
  proof (cases "intervalId e")
    case None
    with assms(2) have "e' = e" and "w' = state_of (beforeStop e w)"
      by (auto simp: stop_def)
    with None show ?thesis
      by (simp add: beforeStop_timers fireTimer_def)
  next
    case (Some h)
    with assms(2) have e': "e' = e\<lparr>intervalId := None\<rparr>"
      and w': "w' = clearInterval h (state_of (beforeStop e w))"
      by (simp_all add: stop_def)
    from inv Some have other: "\<forall>t \<in> set (timers w). is_Timeout t \<longrightarrow> handle_of t \<noteq> h"
      by (auto simp: handles_fresh_def list_all_iff)
    have tw: "timers w' = filter (\<lambda>t. handle_of t \<noteq> h) (timers w)"
      by (simp add: w' clearInterval_def beforeStop_timers)
    have keep: "filter is_Timeout (timers w') = filter is_Timeout (timers w)"
      unfolding tw using other by (auto intro: filter_cong)
    from other tw have mem: "\<forall>t \<in> set (timers w). is_Timeout t \<longrightarrow> t \<in> set (timers w')"
      by simp
    from e' Some tw keep mem show ?thesis
      by (auto simp: fireTimer_def)
  qed
qed

text \<open>
  C9 at an engine with \<open>broadcastOnSubscribe: true\<close> that was started and then saw a
  subscription change: of the periodic timer \<open>0\<close> and the one-shot timer \<open>1\<close>, the stop
  leaves the one-shot timer, and firing it publishes the announcement.
\<close>

theorem stop_keeps_one_shot_timers_witness:
  "run sample_externals [AfterStart, OnSubscriptionChange (1 / 2) [sample_subscription]]
       (constructor sample_components (empty_init\<lparr>init_broadcastOnSubscribe := Some True\<rparr>),
        initial_world [])
     = (reactive_engine\<lparr>intervalId := Some 0\<rparr>,
        empty_world\<lparr>calls := [Subscribe TOPIC, AddEventListener Message_event,
                       AddEventListener Subscription_change_event, Publish TOPIC [1]],
                    timers := [Interval 0 10000, Timeout 1 500], nextTimer := 2,
                    logged := [Log_broadcasting TOPIC]\<rparr>)
   \<and> stop (reactive_engine\<lparr>intervalId := Some 0\<rparr>)
        (state_of (beforeStop (reactive_engine\<lparr>intervalId := Some 0\<rparr>)
           (empty_world\<lparr>calls := [Subscribe TOPIC, AddEventListener Message_event,
                       AddEventListener Subscription_change_event, Publish TOPIC [1]],
                    timers := [Interval 0 10000, Timeout 1 500], nextTimer := 2,
                    logged := [Log_broadcasting TOPIC]\<rparr>)))
     = (reactive_engine,
        empty_world\<lparr>calls := [Subscribe TOPIC, AddEventListener Message_event,
                       AddEventListener Subscription_change_event, Publish TOPIC [1],
                       Unsubscribe TOPIC, RemoveEventListener Message_event],
                    timers := [Timeout 1 500], nextTimer := 2,
                    logged := [Log_broadcasting TOPIC]\<rparr>)
   \<and> calls (state_of (fireTimer sample_externals reactive_engine (Timeout 1 500)
        (empty_world\<lparr>calls := [Subscribe TOPIC, AddEventListener Message_event,
                       AddEventListener Subscription_change_event, Publish TOPIC [1],
                       Unsubscribe TOPIC, RemoveEventListener Message_event],
                    timers := [Timeout 1 500], nextTimer := 2,
                    logged := [Log_broadcasting TOPIC]\<rparr>)))
     = [Subscribe TOPIC, AddEventListener Message_event,
        AddEventListener Subscription_change_event, Publish TOPIC [1],
        Unsubscribe TOPIC, RemoveEventListener Message_event, Publish TOPIC [1]]"
  using stop_keeps_one_shot_timers [of sample_externals
      "[AfterStart, OnSubscriptionChange (1 / 2) [sample_subscription]]"
      sample_components "empty_init\<lparr>init_broadcastOnSubscribe := Some True\<rparr>" "[]"
      "reactive_engine\<lparr>intervalId := Some 0\<rparr>"
      "empty_world\<lparr>calls := [Subscribe TOPIC, AddEventListener Message_event,
                       AddEventListener Subscription_change_event, Publish TOPIC [1]],
                    timers := [Interval 0 10000, Timeout 1 500], nextTimer := 2,
                    logged := [Log_broadcasting TOPIC]\<rparr>"
      reactive_engine
      "empty_world\<lparr>calls := [Subscribe TOPIC, AddEventListener Message_event,
                       AddEventListener Subscription_change_event, Publish TOPIC [1],
                       Unsubscribe TOPIC, RemoveEventListener Message_event],
                    timers := [Timeout 1 500], nextTimer := 2,
                    logged := [Log_broadcasting TOPIC]\<rparr>"]
  by (simp add: sample_defs op_defs)

end
